theory Spec2Isabelle
  imports Main "HOL-Library.Multiset"
begin

section \<open>JavaScript primitives used by ChatInterface.tsx\<close>

text \<open>
  Strings are \<open>string\<close>; an optional or possibly missing value is an \<open>option\<close>
  (\<open>None\<close> for \<open>null\<close> and \<open>undefined\<close>). A string is truthy when it is not empty.
\<close>

definition truthy :: "string option \<Rightarrow> bool" where
  "truthy v = (case v of None \<Rightarrow> False | Some s \<Rightarrow> s \<noteq> [])"

text \<open>\<open>v || d\<close> on an optional string.\<close>

definition or_else :: "string option \<Rightarrow> string \<Rightarrow> string" where
  "or_else v d = (case v of None \<Rightarrow> d | Some s \<Rightarrow> if s = [] then d else s)"

text \<open>\<open>s.startsWith(p)\<close> and \<open>s.includes(p)\<close>.\<close>

fun startsWith :: "string \<Rightarrow> string \<Rightarrow> bool" where
  "startsWith s [] = True"
| "startsWith [] (p # ps) = False"
| "startsWith (c # cs) (p # ps) = (c = p \<and> startsWith cs ps)"

fun includes_str :: "string \<Rightarrow> string \<Rightarrow> bool" where
  "includes_str [] p = (p = [])"
| "includes_str (c # cs) p = (startsWith (c # cs) p \<or> includes_str cs p)"

text \<open>\<open>s.trim()\<close>, on the ASCII white space and line terminators.\<close>

definition is_space :: "char \<Rightarrow> bool" where
  "is_space c = (c = CHR '' '' \<or> c = CHR 0x09 \<or> c = CHR 0x0A \<or> c = CHR 0x0B
                 \<or> c = CHR 0x0C \<or> c = CHR 0x0D)"

definition trim :: "string \<Rightarrow> string" where
  "trim s = rev (dropWhile is_space (rev (dropWhile is_space s)))"

text \<open>\<open>s.split(d)\<close> for a one-character separator: never the empty array.\<close>

fun split :: "char \<Rightarrow> string \<Rightarrow> string list" where
  "split d [] = [[]]"
| "split d (c # cs) =
     (if c = d then [] # split d cs
      else (case split d cs of [] \<Rightarrow> [[c]] | w # ws \<Rightarrow> (c # w) # ws))"

text \<open>The decimal rendering of a non-negative integer in a template literal.\<close>

definition digit :: "nat \<Rightarrow> char" where
  "digit n = ''0123456789'' ! n"

fun string_of_nat :: "nat \<Rightarrow> string" where
  "string_of_nat n = (if n < 10 then [digit n] else string_of_nat (n div 10) @ [digit (n mod 10)])"

declare string_of_nat.simps [simp del]

text \<open>
  \<open>Array.prototype.sort(cmp)\<close>. The comparator's result is a number or \<open>NaN\<close>
  (\<open>None\<close>); the sort reads \<open>NaN\<close> as \<open>+0\<close>. The sort is stable; it is modelled as the
  stable insertion sort, which places an element before the first element of the sorted
  rest that the comparator does not put in front of it.
\<close>

type_synonym 'a comparator = "'a \<Rightarrow> 'a \<Rightarrow> int option"

definition SortCompare :: "'a comparator \<Rightarrow> 'a \<Rightarrow> 'a \<Rightarrow> int" where
  "SortCompare cmp x y = (case cmp x y of None \<Rightarrow> 0 | Some v \<Rightarrow> v)"

fun insort_by :: "'a comparator \<Rightarrow> 'a \<Rightarrow> 'a list \<Rightarrow> 'a list" where
  "insort_by cmp x [] = [x]"
| "insort_by cmp x (y # ys) =
     (if SortCompare cmp x y \<le> 0 then x # y # ys else y # insort_by cmp x ys)"

definition sort_by :: "'a comparator \<Rightarrow> 'a list \<Rightarrow> 'a list" where
  "sort_by cmp xs = foldr (insort_by cmp) xs []"

section \<open>Data model\<close>

datatype msg_type = User | Ai

text \<open>
  \<open>content: string | { content: string; ... }\<close>: a plain text, or an envelope object
  with its \<open>content\<close> field (possibly missing).
\<close>

datatype content = PlainText string | Envelope "string option"

record message =
  msg_id :: string
  msg_type :: msg_type
  role :: "string option"
  content :: content
  timestamp :: string
  imageUrl :: "string option"

record image_data =
  base64 :: string
  image_type :: string

record toast =
  title :: string
  description :: string
  variant :: "string option"

text \<open>The body of \<open>POST /chat/send\<close>; \<open>JSON.stringify\<close> leaves out the missing fields.\<close>

record payload =
  p_message :: string
  p_style :: string
  p_threadId :: "string option"
  p_imageBase64 :: "string option"
  p_imageType :: "string option"

datatype request =
    DeleteThread string
  | VerifyThread string
  | GetMessages string
  | PostSend payload

text \<open>
  The component's state: the \<open>useState\<close> cells, the \<open>currentThreadId\<close> item of
  \<open>localStorage\<close>, and what the component has done to the outside so far: the toasts
  shown, the requests issued and the number of file reads started.
\<close>

record state =
  messages :: "message list"
  inputMessage :: string
  isLoading :: bool
  isLoadingMessages :: bool
  imagePreview :: "string option"
  imageData :: "image_data option"
  uploadingImage :: bool
  style :: string
  currentThreadId :: "string option"
  showThreadList :: bool
  isCreatingThread :: bool
  localStorage :: "string option"
  toasts :: "toast list"
  requests :: "request list"
  fileReads :: nat

definition destructive :: "string \<Rightarrow> string \<Rightarrow> toast" where
  "destructive t d = \<lparr>title = t, description = d, variant = Some ''destructive''\<rparr>"

definition show_toast :: "toast \<Rightarrow> state \<Rightarrow> state" where
  "show_toast t s = s\<lparr>toasts := toasts s @ [t]\<rparr>"

definition fetch :: "request \<Rightarrow> state \<Rightarrow> state" where
  "fetch r s = s\<lparr>requests := requests s @ [r]\<rparr>"

definition styleMap :: "string \<Rightarrow> string option" where
  "styleMap k =
     (if k = ''Confident'' then Some ''confident''
      else if k = ''Flirty'' then Some ''flirty''
      else if k = ''Funny'' then Some ''funny''
      else if k = ''Chill'' then Some ''smooth''
      else None)"

section \<open>Attachment pipeline\<close>

record js_file =
  file_type :: string
  file_size :: nat

text \<open>What \<open>FileReader.readAsDataURL\<close> ends with: \<open>onload\<close> with a result, or \<open>onerror\<close>.\<close>

datatype read_result = Loaded string | ReadError

text \<open>\<open>toBase64\<close>: \<open>result.split(',')[1] || ''\<close>; the promise rejects on \<open>onerror\<close>.\<close>

definition toBase64 :: "read_result \<Rightarrow> string option" where
  "toBase64 r =
     (case r of
        ReadError \<Rightarrow> None
      | Loaded result \<Rightarrow>
          (case split CHR '','' result of
             _ # b # _ \<Rightarrow> Some (if b = [] then [] else b)
           | _ \<Rightarrow> Some []))"

definition MAX_IMAGE_SIZE :: nat where
  "MAX_IMAGE_SIZE = 20 * 1024 * 1024"

text \<open>
  \<open>handleFileChange\<close>, from the selected file (if any), the outcome of the read and the
  handle \<open>URL.createObjectURL\<close> gives. The read is started only past both checks.
\<close>

definition handleFileChange :: "js_file option \<Rightarrow> read_result \<Rightarrow> string \<Rightarrow> state \<Rightarrow> state" where
  "handleFileChange fo rd url s =
     (case fo of
        None \<Rightarrow> s
      | Some f \<Rightarrow>
          if \<not> startsWith (file_type f) ''image/'' then
            show_toast (destructive ''Invalid file type''
              ''Please upload an image file (JPEG, PNG, GIF, WEBP)'') s
          else if file_size f > MAX_IMAGE_SIZE then
            show_toast (destructive ''File too large'' ''Maximum image size is 20MB'') s
          else
            (let s1 = s\<lparr>uploadingImage := True, fileReads := fileReads s + 1\<rparr> in
             case toBase64 rd of
               Some b \<Rightarrow>
                 s1\<lparr>imageData := Some \<lparr>base64 = b, image_type = file_type f\<rparr>,
                    imagePreview := Some url,
                    uploadingImage := False\<rparr>
             | None \<Rightarrow>
                 (show_toast (destructive ''Error'' ''Failed to process image'') s1)
                   \<lparr>uploadingImage := False\<rparr>))"

section \<open>Message timeline\<close>

text \<open>
  The comparator of both \<open>setMessages\<close> updaters of \<open>handleSendMessage\<close>. Its parameter
  \<open>getTime\<close> is the platform's \<open>new Date(s).getTime()\<close>, with \<open>None\<close> for the \<open>NaN\<close>
  of an invalid date; a difference with \<open>NaN\<close> is \<open>NaN\<close>.
\<close>

definition compare_turns :: "(string \<Rightarrow> int option) \<Rightarrow> message comparator" where
  "compare_turns getTime a b =
     (if timestamp a = timestamp b then
        (if role a = Some ''user'' then Some (- 1) else Some 1)
      else
        (case (getTime (timestamp a), getTime (timestamp b)) of
           (Some ta, Some tb) \<Rightarrow> Some (ta - tb)
         | _ \<Rightarrow> None))"

text \<open>The two updaters: \<open>[...prev, m].sort(...)\<close>.\<close>

definition insertOptimistic ::
  "(string \<Rightarrow> int option) \<Rightarrow> message \<Rightarrow> message list \<Rightarrow> message list" where
  "insertOptimistic getTime userMsg prev = sort_by (compare_turns getTime) (prev @ [userMsg])"

definition reconcile ::
  "(string \<Rightarrow> int option) \<Rightarrow> message \<Rightarrow> message list \<Rightarrow> message list" where
  "reconcile getTime aiMsg prev = sort_by (compare_turns getTime) (prev @ [aiMsg])"

text \<open>
  The user turn of a send, from \<open>Date.now()\<close>, \<open>new Date().toISOString()\<close>, the input
  text and the pending preview.
\<close>

definition userMessage :: "nat \<Rightarrow> string \<Rightarrow> string \<Rightarrow> string option \<Rightarrow> message" where
  "userMessage nowMs nowIso text preview =
     \<lparr>msg_id = ''msg-'' @ string_of_nat nowMs,
      msg_type = User,
      role = Some ''user'',
      content = PlainText text,
      timestamp = nowIso,
      imageUrl = (if truthy preview then preview else None)\<rparr>"

text \<open>The \<open>response\<close> object of a send reply; each field may be missing.\<close>

record response =
  r_id :: "string option"
  r_content :: "content option"
  r_timestamp :: "string option"

text \<open>\<open>data.response.content || data.response\<close>.\<close>

definition response_content :: "response \<Rightarrow> content" where
  "response_content r =
     (case r_content r of
        None \<Rightarrow> Envelope None
      | Some (PlainText t) \<Rightarrow> if t = [] then Envelope (Some []) else PlainText t
      | Some (Envelope e) \<Rightarrow> Envelope e)"

definition aiMessage :: "nat \<Rightarrow> string \<Rightarrow> response \<Rightarrow> message" where
  "aiMessage nowMs nowIso r =
     \<lparr>msg_id = or_else (r_id r) (''msg-'' @ string_of_nat nowMs),
      msg_type = Ai,
      role = Some ''assistant'',
      content = response_content r,
      timestamp = or_else (r_timestamp r) nowIso,
      imageUrl = None\<rparr>"

text \<open>A message of a history reply, and the hydration of \<open>loadMessages\<close>.\<close>

record raw_message =
  raw_id :: string
  raw_role :: "string option"
  raw_content :: content
  raw_timestamp :: "string option"

definition sortKey :: "raw_message \<Rightarrow> string" where
  "sortKey m =
     (case raw_timestamp m of None \<Rightarrow> ''undefined'' | Some t \<Rightarrow> t)
       @ ''_'' @ (if raw_role m = Some ''user'' then ''0'' else ''1'')"

definition format_message :: "string \<Rightarrow> raw_message \<Rightarrow> message" where
  "format_message nowIso m =
     \<lparr>msg_id = raw_id m,
      msg_type = (if raw_role m = Some ''user'' then User else Ai),
      role = raw_role m,
      content = raw_content m,
      timestamp = or_else (raw_timestamp m) nowIso,
      imageUrl = None\<rparr>"

text \<open>\<open>localeCompare\<close> is the platform's collation, a parameter.\<close>

definition hydrate ::
  "(string \<Rightarrow> string \<Rightarrow> int) \<Rightarrow> string \<Rightarrow> raw_message list \<Rightarrow> message list" where
  "hydrate localeCompare nowIso raws =
     map snd
       (sort_by (\<lambda>a b. Some (localeCompare (fst a) (fst b)))
          (map (\<lambda>m. (sortKey m, format_message nowIso m)) raws))"

section \<open>Thread identity\<close>

text \<open>
  The effects that depend on \<open>currentThreadId\<close> run after a render in which it changed:
  the write-through to \<open>localStorage\<close>, and the start of \<open>loadMessages\<close>, which returns
  at once without a thread id and otherwise leaves a history fetch pending for it.
\<close>

definition persist :: "state \<Rightarrow> state" where
  "persist s =
     s\<lparr>localStorage := (if truthy (currentThreadId s) then currentThreadId s else None)\<rparr>"

definition loadMessages_begin :: "state \<Rightarrow> state \<times> string option" where
  "loadMessages_begin s =
     (if \<not> truthy (currentThreadId s) then (s, None)
      else (s\<lparr>isLoadingMessages := True\<rparr>, currentThreadId s))"

definition thread_effects :: "string option \<Rightarrow> state \<Rightarrow> state \<times> string option" where
  "thread_effects old s =
     (if currentThreadId s = old then (s, None) else loadMessages_begin (persist s))"

definition ok :: "nat \<Rightarrow> bool" where
  "ok status = (200 \<le> status \<and> status \<le> 299)"

text \<open>
  How the history fetch ends: the token provider or the fetch rejects with an error of
  that message, or a response arrives with its status and body; the body is unreadable,
  or holds \<open>success\<close> and, when it is an array, \<open>messages\<close>.
\<close>

datatype load_body = BodyRejected string | LoadBody bool "raw_message list option"

datatype load_outcome =
    LoadTokenRejected string
  | LoadFetchRejected string
  | LoadResponse nat load_body

definition loadMessages_catch :: "string \<Rightarrow> state \<Rightarrow> state" where
  "loadMessages_catch msg s =
     (if includes_str msg ''THREAD_NOT_FOUND'' \<or> includes_str msg ''404'' then s\<lparr>messages := []\<rparr>
      else show_toast (destructive ''Error'' ''Failed to load messages'') s)"

text \<open>
  The rest of \<open>loadMessages\<close>, run on the state of the moment the fetch for thread
  \<open>tid\<close> ends.
\<close>

definition loadMessages_settle ::
  "(string \<Rightarrow> string \<Rightarrow> int) \<Rightarrow> string \<Rightarrow> string \<Rightarrow> load_outcome \<Rightarrow> state \<Rightarrow> state" where
  "loadMessages_settle localeCompare nowIso tid out s =
     (let s' =
        (case out of
           LoadTokenRejected e \<Rightarrow> loadMessages_catch e s
         | LoadFetchRejected e \<Rightarrow> loadMessages_catch e (fetch (GetMessages tid) s)
         | LoadResponse status body \<Rightarrow>
             (let s1 = fetch (GetMessages tid) s in
              if status = 404 then s1\<lparr>messages := []\<rparr>
              else if \<not> ok status then loadMessages_catch ''Failed to load messages'' s1
              else
                (case body of
                   BodyRejected e \<Rightarrow> loadMessages_catch e s1
                 | LoadBody success msgs \<Rightarrow>
                     (case msgs of
                        Some ms \<Rightarrow>
                          if success then s1\<lparr>messages := hydrate localeCompare nowIso ms\<rparr>
                          else s1\<lparr>messages := []\<rparr>
                      | None \<Rightarrow> s1\<lparr>messages := []\<rparr>))))
      in s'\<lparr>isLoadingMessages := False\<rparr>)"

definition handleThreadSelect :: "string \<Rightarrow> state \<Rightarrow> state" where
  "handleThreadSelect threadId s = s\<lparr>currentThreadId := Some threadId, showThreadList := False\<rparr>"

text \<open>A thread switch: the handler, then the effects of the render it causes.\<close>

definition switchThread :: "string \<Rightarrow> state \<Rightarrow> state \<times> string option" where
  "switchThread threadId s = thread_effects (currentThreadId s) (handleThreadSelect threadId s)"




text \<open>
  \<open>getOrCreateThread\<close>: verify the current id, clear it when the check fails, then create
  a thread by a bootstrap send without a thread id. No handler of the component calls it.
  The result is the thread id, or the error the promise rejects with.
\<close>

datatype verify_outcome = VerifyRejected string | VerifyResponse nat

datatype create_outcome = CreateRejected string | CreateResponse nat "string option"

definition bootstrap_payload :: "state \<Rightarrow> payload" where
  "bootstrap_payload s =
     \<lparr>p_message = ''New chat started'',
      p_style = or_else (styleMap (style s)) ''confident'',
      p_threadId = None,
      p_imageBase64 = None,
      p_imageType = None\<rparr>"

definition create_failed :: "string \<Rightarrow> state \<Rightarrow> state \<times> (string + string)" where
  "create_failed e s =
     (show_toast (destructive ''Error'' ''Failed to initialize chat thread'') s, Inl e)"

definition create_thread :: "create_outcome \<Rightarrow> state \<Rightarrow> state \<times> (string + string)" where
  "create_thread cr s =
     (let s1 = fetch (PostSend (bootstrap_payload s)) s in
      case cr of
        CreateRejected e \<Rightarrow> create_failed e s1
      | CreateResponse status tid \<Rightarrow>
          (case tid of
             Some t \<Rightarrow>
               if ok status \<and> t \<noteq> [] then (s1\<lparr>currentThreadId := Some t\<rparr>, Inr t)
               else create_failed ''Failed to create a new thread'' s1
           | None \<Rightarrow> create_failed ''Failed to create a new thread'' s1))"

definition getOrCreateThread ::
  "verify_outcome \<Rightarrow> create_outcome \<Rightarrow> state \<Rightarrow> state \<times> (string + string)" where
  "getOrCreateThread vr cr s =
     (case currentThreadId s of
        None \<Rightarrow> create_thread cr s
      | Some tid \<Rightarrow>
          if tid = [] then create_thread cr s
          else
            (let s1 = fetch (VerifyThread tid) s in
             case vr of
               VerifyResponse status \<Rightarrow>
                 if ok status then (s1, Inr tid)
                 else create_thread cr (s1\<lparr>currentThreadId := None\<rparr>)
             | VerifyRejected e \<Rightarrow> create_thread cr (s1\<lparr>currentThreadId := None\<rparr>)))"

section \<open>Session controller: send\<close>

text \<open>What the closure of \<open>handleSendMessage\<close> holds of the render it was created in.\<close>

record send_closure =
  c_inputMessage :: string
  c_imageData :: "image_data option"
  c_style :: string
  c_currentThreadId :: "string option"

text \<open>
  \<open>handleSendMessage\<close> up to its first \<open>await\<close>: the guard, the optimistic insert and the
  clearing of the input. \<open>None\<close> is the return at the guard.
\<close>

definition handleSendMessage_begin ::
  "(string \<Rightarrow> int option) \<Rightarrow> nat \<Rightarrow> string \<Rightarrow> state \<Rightarrow> state \<times> send_closure option" where
  "handleSendMessage_begin getTime nowMs nowIso s =
     (if (trim (inputMessage s) = [] \<and> imageData s = None) \<or> \<not> truthy (currentThreadId s)
      then (s, None)
      else
        (s\<lparr>messages :=
              insertOptimistic getTime
                (userMessage nowMs nowIso (inputMessage s) (imagePreview s)) (messages s),
           inputMessage := [],
           imageData := None,
           imagePreview := None,
           isLoading := True\<rparr>,
         Some \<lparr>c_inputMessage = inputMessage s,
               c_imageData = imageData s,
               c_style = style s,
               c_currentThreadId = currentThreadId s\<rparr>))"

text \<open>The request body: the image fields are spread in only for a truthy \<open>base64\<close>.\<close>

definition make_payload :: "send_closure \<Rightarrow> payload" where
  "make_payload c =
     \<lparr>p_message = c_inputMessage c,
      p_style = or_else (styleMap (c_style c)) ''confident'',
      p_threadId = c_currentThreadId c,
      p_imageBase64 =
        (case c_imageData c of
           None \<Rightarrow> None
         | Some d \<Rightarrow> if base64 d = [] then None else Some (base64 d)),
      p_imageType =
        (case c_imageData c of
           None \<Rightarrow> None
         | Some d \<Rightarrow> if base64 d = [] then None else Some (image_type d))\<rparr>"

text \<open>
  How the send ends: the token provider rejects or gives no token (no request is made);
  the fetch rejects; the response is not ok, with the \<open>message\<close> of its body; a body
  cannot be read; or an ok response with its body.
\<close>

record send_body =
  b_success :: bool
  b_response :: "response option"
  b_threadId :: "string option"
  b_message :: "string option"

datatype send_outcome =
    TokenRejected string
  | TokenMissing
  | FetchRejected string
  | HttpError "string option"
  | JsonRejected string
  | Body send_body

definition send_catch :: "string \<Rightarrow> state \<Rightarrow> state" where
  "send_catch msg s = show_toast (destructive ''Error'' (or_else (Some msg) ''Unexpected error'')) s"

definition send_finally :: "state \<Rightarrow> state" where
  "send_finally s = s\<lparr>inputMessage := [], imageData := None, imagePreview := None, isLoading := False\<rparr>"

text \<open>The rest of \<open>handleSendMessage\<close>, run on the state of the moment the send ends.\<close>

definition handleSendMessage_settle ::
  "(string \<Rightarrow> int option) \<Rightarrow> nat \<Rightarrow> string \<Rightarrow> send_closure \<Rightarrow> send_outcome \<Rightarrow> state \<Rightarrow> state" where
  "handleSendMessage_settle getTime nowMs nowIso c out s =
     (case out of
        TokenRejected e \<Rightarrow> send_finally (send_catch e s)
      | TokenMissing \<Rightarrow> send_finally (send_catch ''Not authenticated'' s)
      | FetchRejected e \<Rightarrow> send_finally (send_catch e (fetch (PostSend (make_payload c)) s))
      | HttpError m \<Rightarrow>
          send_finally
            (send_catch (or_else m ''Failed to send message'') (fetch (PostSend (make_payload c)) s))
      | JsonRejected e \<Rightarrow> send_finally (send_catch e (fetch (PostSend (make_payload c)) s))
      | Body d \<Rightarrow>
          (let s1 = fetch (PostSend (make_payload c)) s in
           case b_response d of
             Some r \<Rightarrow>
               if b_success d then
                 (let s2 = s1\<lparr>messages := reconcile getTime (aiMessage nowMs nowIso r) (messages s1)\<rparr>;
                      s3 = (if truthy (b_threadId d) \<and> b_threadId d \<noteq> c_currentThreadId c
                            then s2\<lparr>currentThreadId := b_threadId d\<rparr> else s2)
                  in send_finally s3)
               else
                 send_finally
                   (send_catch (or_else (b_message d) ''Failed to get response from server'') s1)
           | None \<Rightarrow>
               send_finally
                 (send_catch (or_else (b_message d) ''Failed to get response from server'') s1)))"

text \<open>The end of a send, then the effects of the render it causes.\<close>

definition send_settled ::
  "(string \<Rightarrow> int option) \<Rightarrow> nat \<Rightarrow> string \<Rightarrow> send_closure \<Rightarrow> send_outcome \<Rightarrow> state
     \<Rightarrow> state \<times> string option" where
  "send_settled getTime nowMs nowIso c out s =
     thread_effects (currentThreadId s) (handleSendMessage_settle getTime nowMs nowIso c out s)"

text \<open>A failed send: every way it ends but an ok response with \<open>success\<close> and a \<open>response\<close>.\<close>

definition send_failed :: "send_outcome \<Rightarrow> bool" where
  "send_failed out =
     (case out of
        Body d \<Rightarrow> (case b_response d of Some r \<Rightarrow> \<not> b_success d | None \<Rightarrow> True)
      | _ \<Rightarrow> True)"

text \<open>The state of a freshly mounted component, from the stored thread id.\<close>

definition initial :: "string option \<Rightarrow> state" where
  "initial stored =
     \<lparr>messages = [], inputMessage = [], isLoading = False, isLoadingMessages = False,
      imagePreview = None, imageData = None, uploadingImage = False, style = ''Confident'',
      currentThreadId = stored, showThreadList = False, isCreatingThread = False,
      localStorage = stored, toasts = [], requests = [], fileReads = 0\<rparr>"

section \<open>Sequences of timeline operations and the order of turns\<close>










text \<open>
  \<open>getTime\<close> on the timestamps of the examples: two spellings of
  2024-01-01T00:00:00 UTC and the millisecond after it; any other string of the
  examples is not a date.
\<close>

definition sample_getTime :: "string \<Rightarrow> int option" where
  "sample_getTime t =
     (if t = ''2024-01-01T00:00:00.000Z'' then Some 1704067200000
      else if t = ''2024-01-01T00:00:00Z'' then Some 1704067200000
      else if t = ''2024-01-01T00:00:00.001Z'' then Some 1704067200001
      else None)"

definition sample_reply :: "string \<Rightarrow> string \<Rightarrow> response" where
  "sample_reply i t = \<lparr>r_id = Some i, r_content = Some (PlainText ''hello!''), r_timestamp = Some t\<rparr>"





text \<open>The mount: the effects run once on the initial state.\<close>

definition mount :: "string option \<Rightarrow> state \<times> string option" where
  "mount stored = loadMessages_begin (persist (initial stored))"

text \<open>
  A whole send with nothing in between: \<open>handleSendMessage\<close> from the click to the end
  of its \<open>finally\<close>, then the effects of the render; the clock is read at the click and
  again when the reply arrives.
\<close>

definition handleSendMessage ::
  "(string \<Rightarrow> int option) \<Rightarrow> nat \<Rightarrow> string \<Rightarrow> nat \<Rightarrow> string \<Rightarrow> send_outcome \<Rightarrow> state
     \<Rightarrow> state \<times> string option" where
  "handleSendMessage getTime nowMs nowIso nowMs' nowIso' out s =
     (case handleSendMessage_begin getTime nowMs nowIso s of
        (s1, None) \<Rightarrow> (s1, None)
      | (s1, Some c) \<Rightarrow> send_settled getTime nowMs' nowIso' c out s1)"

text \<open>The send guard passes: some input, and a current thread id.\<close>

definition can_send :: "state \<Rightarrow> bool" where
  "can_send s =
     ((trim (inputMessage s) \<noteq> [] \<or> imageData s \<noteq> None) \<and> truthy (currentThreadId s))"

section \<open>Example inputs\<close>

definition iso0 :: string where "iso0 = ''2024-01-01T00:00:00.000Z''"


definition iso1 :: string where "iso1 = ''2024-01-01T00:00:00.001Z''"

text \<open>The user has typed \<open>hi\<close> in a component mounted with the stored thread id.\<close>

definition typed_hi :: "string option \<Rightarrow> state" where
  "typed_hi stored = (fst (mount stored))\<lparr>inputMessage := ''hi''\<rparr>"

text \<open>A successful reply \<open>m1\<close> stamped \<open>iso1\<close>, with the thread id it carries.\<close>

definition reply_body :: "string option \<Rightarrow> send_body" where
  "reply_body tid =
     \<lparr>b_success = True, b_response = Some (sample_reply ''m1'' iso1),
      b_threadId = tid, b_message = None\<rparr>"

text \<open>A send clicked at \<open>iso0\<close> that ends at \<open>iso1\<close>.\<close>

definition send_hi :: "send_outcome \<Rightarrow> state \<Rightarrow> state \<times> string option" where
  "send_hi out s = handleSendMessage sample_getTime 1704067200000 iso0 1704067200001 iso1 out s"

definition hi_closure :: send_closure where
  "hi_closure =
     \<lparr>c_inputMessage = ''hi'', c_imageData = None, c_style = ''Confident'',
      c_currentThreadId = Some ''t1''\<rparr>"

definition png :: "nat \<Rightarrow> js_file" where
  "png n = \<lparr>file_type = ''image/png'', file_size = n\<rparr>"

text \<open>The collation of the examples; an empty history never consults it.\<close>

definition sample_localeCompare :: "string \<Rightarrow> string \<Rightarrow> int" where
  "sample_localeCompare a b = 0"




text \<open>
  A late confirmation: the user sends \<open>hi\<close> on thread \<open>t1\<close>, switches to \<open>t2\<close>, whose
  history is not found; then the reply for \<open>t1\<close> arrives.
\<close>

definition late_confirmation_before :: state where
  "late_confirmation_before =
     loadMessages_settle sample_localeCompare iso0 ''t2'' (LoadResponse 404 (BodyRejected []))
       (fst (switchThread ''t2''
          (fst (handleSendMessage_begin sample_getTime 1704067200000 iso0
                  (typed_hi (Some ''t1''))))))"

definition late_confirmation_after :: state where
  "late_confirmation_after =
     handleSendMessage_settle sample_getTime 1704067200001 iso1 hi_closure
       (Body (reply_body (Some ''t1''))) late_confirmation_before"

section \<open>Sorting and the order of turns\<close>


lemma mset_insort_by: "mset (insort_by cmp x ys) = add_mset x (mset ys)"
  by (induction ys) auto

lemma mset_sort_by: "mset (sort_by cmp xs) = mset xs"
  by (induction xs) (auto simp: sort_by_def mset_insort_by)

lemma set_sort_by: "set (sort_by cmp xs) = set xs"
  using mset_sort_by [of cmp xs] by (metis set_mset_mset)















section \<open>The claims\<close>




text \<open>
  C6. Attachment validation rejects every file whose declared media type is not an image
  type, whatever its size, and every file larger than the cap of 20 MiB: the only thing
  that happens is one destructive toast, with no read of the file, no request and no
  pending attachment. An image-typed file within the cap is accepted: it is read, and a
  successful read makes it the pending attachment.
\<close>

theorem attachment_validation:
  assumes "s' = handleFileChange (Some f) rd url s"
  shows "(\<not> startsWith (file_type f) ''image/'' \<or> file_size f > MAX_IMAGE_SIZE \<longrightarrow>
            fileReads s' = fileReads s \<and> requests s' = requests s
            \<and> imageData s' = imageData s \<and> imagePreview s' = imagePreview s
            \<and> (\<exists>t. toasts s' = toasts s @ [t] \<and> variant t = Some ''destructive''))
       \<and> (startsWith (file_type f) ''image/'' \<and> file_size f \<le> MAX_IMAGE_SIZE \<longrightarrow>
            fileReads s' = fileReads s + 1 \<and> requests s' = requests s
            \<and> (\<forall>b. toBase64 rd = Some b \<longrightarrow>
                  imageData s' = Some \<lparr>base64 = b, image_type = file_type f\<rparr>
                  \<and> imagePreview s' = Some url \<and> toasts s' = toasts s))"
  unfolding assms
  by (auto simp: handleFileChange_def show_toast_def destructive_def Let_def split: option.splits)

text \<open>
  The witness: a \<open>text/plain\<close> file and an image of 21 MiB are rejected, a
  \<open>image/png\<close> of 19 MiB is accepted.
\<close>

theorem attachment_validation_witness:
  "fileReads (handleFileChange (Some \<lparr>file_type = ''text/plain'', file_size = 1\<rparr>)
      (Loaded ''data:text/plain;base64,aGk='') ''blob:1'' (initial None)) = 0
   \<and> fileReads (handleFileChange (Some (png (21 * 1024 * 1024)))
      (Loaded ''data:image/png;base64,AAAA'') ''blob:1'' (initial None)) = 0
   \<and> imageData (handleFileChange (Some (png (19 * 1024 * 1024)))
      (Loaded ''data:image/png;base64,AAAA'') ''blob:1'' (initial None))
       = Some \<lparr>base64 = ''AAAA'', image_type = ''image/png''\<rparr>"
proof -
  have t: "\<not> startsWith (file_type \<lparr>file_type = ''text/plain'', file_size = 1\<rparr>) ''image/''"
    by simp
  have b: "file_size (png (21 * 1024 * 1024)) > MAX_IMAGE_SIZE"
    by (simp add: MAX_IMAGE_SIZE_def png_def)
  have p: "startsWith (file_type (png (19 * 1024 * 1024))) ''image/''
      \<and> file_size (png (19 * 1024 * 1024)) \<le> MAX_IMAGE_SIZE"
    by (simp add: MAX_IMAGE_SIZE_def png_def)
  have e: "toBase64 (Loaded ''data:image/png;base64,AAAA'') = Some ''AAAA''"
    by (simp add: toBase64_def)
  have f0: "fileReads (initial None) = 0" "file_type (png (19 * 1024 * 1024)) = ''image/png''"
    by (simp_all add: initial_def png_def)
  from attachment_validation [OF refl, of "\<lparr>file_type = ''text/plain'', file_size = 1\<rparr>"] t f0
  have 1: "fileReads (handleFileChange (Some \<lparr>file_type = ''text/plain'', file_size = 1\<rparr>)
      (Loaded ''data:text/plain;base64,aGk='') ''blob:1'' (initial None)) = 0"
    by auto
  from attachment_validation [OF refl, of "png (21 * 1024 * 1024)"] b f0
  have 2: "fileReads (handleFileChange (Some (png (21 * 1024 * 1024)))
      (Loaded ''data:image/png;base64,AAAA'') ''blob:1'' (initial None)) = 0"
    by auto
  from attachment_validation [OF refl, of "png (19 * 1024 * 1024)"
      "Loaded ''data:image/png;base64,AAAA''" "''blob:1''" "initial None"] p e f0
  have 3: "imageData (handleFileChange (Some (png (19 * 1024 * 1024)))
      (Loaded ''data:image/png;base64,AAAA'') ''blob:1'' (initial None))
       = Some \<lparr>base64 = ''AAAA'', image_type = ''image/png''\<rparr>"
    by auto
  from 1 2 3 show ?thesis by blast
qed





section \<open>Facts about a send\<close>

lemma begin_can_send:
  "can_send s \<Longrightarrow>
   handleSendMessage_begin gt nowMs nowIso s =
     (s\<lparr>messages :=
           insertOptimistic gt (userMessage nowMs nowIso (inputMessage s) (imagePreview s)) (messages s),
        inputMessage := [], imageData := None, imagePreview := None, isLoading := True\<rparr>,
      Some \<lparr>c_inputMessage = inputMessage s, c_imageData = imageData s, c_style = style s,
            c_currentThreadId = currentThreadId s\<rparr>)"
  by (auto simp: can_send_def handleSendMessage_begin_def)

lemma settle_failed:
  assumes "send_failed out" and "s' = handleSendMessage_settle gt nowMs nowIso c out s"
  shows "messages s' = messages s" and "currentThreadId s' = currentThreadId s"
    and "localStorage s' = localStorage s" and "inputMessage s' = []"
    and "imageData s' = None" and "imagePreview s' = None" and "\<not> isLoading s'"
    and "\<exists>t. toasts s' = toasts s @ [t] \<and> title t = ''Error'' \<and> variant t = Some ''destructive''"
  using assms(1) unfolding assms(2)
  by (cases out;
      simp add: send_failed_def handleSendMessage_settle_def send_finally_def send_catch_def
        show_toast_def fetch_def destructive_def Let_def split: option.splits)+

lemma can_send_typed_hi: "can_send (typed_hi (Some ''t1''))"
  by (simp add: can_send_def typed_hi_def mount_def loadMessages_begin_def persist_def
      initial_def trim_def is_space_def truthy_def)

lemma typed_hi_fields:
  "messages (typed_hi (Some ''t1'')) = []" "toasts (typed_hi (Some ''t1'')) = []"
  "localStorage (typed_hi (Some ''t1'')) = Some ''t1''"
  "currentThreadId (typed_hi (Some ''t1'')) = Some ''t1''"
  "inputMessage (typed_hi (Some ''t1'')) = ''hi''" "imagePreview (typed_hi (Some ''t1'')) = None"
  by (simp_all add: typed_hi_def mount_def loadMessages_begin_def persist_def initial_def
      truthy_def)

text \<open>
  C4. For every send that fails (no token, a rejected fetch, a response that is not ok, an
  unreadable body, or a body without \<open>success\<close> or \<open>response\<close>), the optimistic user turn
  stays in the timeline, which holds the turns it had and that turn; exactly one toast is
  added, an error; the input text and the pending attachment are cleared; and the current
  and the persisted thread id are unchanged.
\<close>

theorem failed_send_keeps_optimistic_turn:
  assumes "can_send s" and "send_failed out"
    and "handleSendMessage gt nowMs nowIso nowMs' nowIso' out s = (s', pending)"
  shows "userMessage nowMs nowIso (inputMessage s) (imagePreview s) \<in> set (messages s')
       \<and> mset (messages s')
           = add_mset (userMessage nowMs nowIso (inputMessage s) (imagePreview s)) (mset (messages s))
       \<and> (\<exists>t. toasts s' = toasts s @ [t] \<and> title t = ''Error'' \<and> variant t = Some ''destructive'')
       \<and> inputMessage s' = [] \<and> imageData s' = None \<and> imagePreview s' = None
       \<and> \<not> isLoading s' \<and> localStorage s' = localStorage s
       \<and> currentThreadId s' = currentThreadId s \<and> pending = None"
proof -
  let ?u = "userMessage nowMs nowIso (inputMessage s) (imagePreview s)"
  let ?c = "\<lparr>c_inputMessage = inputMessage s, c_imageData = imageData s, c_style = style s,
            c_currentThreadId = currentThreadId s\<rparr>"
  let ?s1 = "s\<lparr>messages := insertOptimistic gt ?u (messages s),
        inputMessage := [], imageData := None, imagePreview := None, isLoading := True\<rparr>"
  let ?s2 = "handleSendMessage_settle gt nowMs' nowIso' ?c out ?s1"
  note f = settle_failed [OF assms(2) refl, of gt nowMs' nowIso' ?c ?s1]
  have "handleSendMessage gt nowMs nowIso nowMs' nowIso' out s = (?s2, None)"
    using f(2)
    by (simp add: handleSendMessage_def begin_can_send [OF assms(1)] send_settled_def
        thread_effects_def)
  with assms(3) have h: "s' = ?s2" "pending = None" by simp_all
  have ms: "mset (insertOptimistic gt ?u (messages s)) = add_mset ?u (mset (messages s))"
    by (simp add: insertOptimistic_def mset_sort_by)
  have mem: "?u \<in> set (insertOptimistic gt ?u (messages s))"
    by (simp add: insertOptimistic_def set_sort_by)
  show ?thesis
    unfolding h using f ms mem by simp
qed

text \<open>The witness: \<open>hi\<close> sent on thread \<open>t1\<close>, answered by an error response.\<close>

theorem failed_send_keeps_optimistic_turn_witness:
  "messages (fst (send_hi (HttpError (Some ''boom'')) (typed_hi (Some ''t1''))))
     = [userMessage 1704067200000 iso0 ''hi'' None]
   \<and> length (toasts (fst (send_hi (HttpError (Some ''boom'')) (typed_hi (Some ''t1''))))) = 1
   \<and> localStorage (fst (send_hi (HttpError (Some ''boom'')) (typed_hi (Some ''t1'')))) = Some ''t1''"
proof -
  have h2: "send_failed (HttpError (Some ''boom''))"
    by (simp add: send_failed_def)
  note t = failed_send_keeps_optimistic_turn [where gt = sample_getTime and nowMs = 1704067200000 and nowIso = iso0
      and nowMs' = 1704067200001 and nowIso' = iso1,
      OF can_send_typed_hi h2 surjective_pairing, folded send_hi_def,
      unfolded typed_hi_fields]
  from t have "mset (messages (fst (send_hi (HttpError (Some ''boom'')) (typed_hi (Some ''t1'')))))
       = {#userMessage 1704067200000 iso0 ''hi'' None#}"
    by simp
  then have m: "messages (fst (send_hi (HttpError (Some ''boom'')) (typed_hi (Some ''t1''))))
       = [userMessage 1704067200000 iso0 ''hi'' None]"
    by simp
  from t m show ?thesis by auto
qed

text \<open>
  C9. On a successful send, when the reply carries a thread id different from the one the
  request was sent with, the current thread id becomes the returned id, the returned id is
  written through to \<open>localStorage\<close>, and the history of that thread starts loading; when
  the ids are equal (or the reply carries none), the current and the persisted id are
  unchanged.
\<close>

theorem successful_send_rebinds_thread:
  assumes "can_send s" and "b_success d" and "b_response d = Some r"
    and "handleSendMessage gt nowMs nowIso nowMs' nowIso' (Body d) s = (s', pending)"
  shows "(truthy (b_threadId d) \<and> b_threadId d \<noteq> currentThreadId s \<longrightarrow>
            currentThreadId s' = b_threadId d \<and> localStorage s' = b_threadId d
            \<and> pending = b_threadId d)
       \<and> (b_threadId d = currentThreadId s \<or> \<not> truthy (b_threadId d) \<longrightarrow>
            currentThreadId s' = currentThreadId s \<and> localStorage s' = localStorage s
            \<and> pending = None)"
  using assms(2,3,4)
  by (auto simp: handleSendMessage_def begin_can_send [OF assms(1)] send_settled_def
      handleSendMessage_settle_def send_finally_def fetch_def thread_effects_def persist_def
      loadMessages_begin_def Let_def truthy_def split: option.splits if_splits)

text \<open>
  The witness: a send on thread \<open>t1\<close> answered with thread id \<open>t9\<close>, and one answered
  with \<open>t1\<close>.
\<close>

theorem successful_send_rebinds_thread_witness:
  "localStorage (fst (send_hi (Body (reply_body (Some ''t9''))) (typed_hi (Some ''t1'')))) = Some ''t9''
   \<and> currentThreadId (fst (send_hi (Body (reply_body (Some ''t9''))) (typed_hi (Some ''t1''))))
       = Some ''t9''
   \<and> localStorage (fst (send_hi (Body (reply_body (Some ''t1''))) (typed_hi (Some ''t1'')))) = Some ''t1''"
proof -
  have a: "b_success (reply_body tid)" "b_response (reply_body tid) = Some (sample_reply ''m1'' iso1)"
      "b_threadId (reply_body tid) = tid" for tid
    by (simp_all add: reply_body_def)
  from successful_send_rebinds_thread [where gt = sample_getTime and nowMs = 1704067200000 and nowIso = iso0
      and nowMs' = 1704067200001 and nowIso' = iso1
      and d = "reply_body (Some ''t9'')", OF can_send_typed_hi a(1,2) surjective_pairing,
      folded send_hi_def,
      unfolded typed_hi_fields a(3)]
  have 1: "localStorage (fst (send_hi (Body (reply_body (Some ''t9''))) (typed_hi (Some ''t1''))))
        = Some ''t9''
      \<and> currentThreadId (fst (send_hi (Body (reply_body (Some ''t9''))) (typed_hi (Some ''t1''))))
        = Some ''t9''"
    by (simp add: truthy_def)
  from successful_send_rebinds_thread [where gt = sample_getTime and nowMs = 1704067200000 and nowIso = iso0
      and nowMs' = 1704067200001 and nowIso' = iso1
      and d = "reply_body (Some ''t1'')", OF can_send_typed_hi a(1,2) surjective_pairing,
      folded send_hi_def,
      unfolded typed_hi_fields a(3)]
  have 2: "localStorage (fst (send_hi (Body (reply_body (Some ''t1''))) (typed_hi (Some ''t1''))))
        = Some ''t1''"
    by simp
  from 1 2 show ?thesis by blast
qed







text \<open>
  C5 (amended). Reconciliation and optimistic insert add their turn to the timeline and
  keep every turn it had: the timeline grows by one, nothing is merged by id, and the same
  confirmation applied twice leaves two more copies of its turn.
\<close>

theorem reconcile_appends:
  "mset (reconcile gt m prev) = add_mset m (mset prev)
   \<and> mset (insertOptimistic gt u prev) = add_mset u (mset prev)
   \<and> length (reconcile gt m prev) = length prev + 1
   \<and> count (mset (reconcile gt m (reconcile gt m prev))) m = count (mset prev) m + 2
   \<and> (b_success d \<and> b_response d = Some r \<longrightarrow>
        mset (messages (handleSendMessage_settle gt nowMs nowIso c (Body d) s))
          = add_mset (aiMessage nowMs nowIso r) (mset (messages s)))"
proof -
  have "length (sort_by cmp xs) = length xs" for cmp :: "message comparator" and xs
    using mset_sort_by [of cmp xs] by (metis size_mset)
  then show ?thesis
    by (simp add: reconcile_def insertOptimistic_def mset_sort_by handleSendMessage_settle_def
        send_finally_def fetch_def Let_def)
qed

text \<open>The witness: the late confirmation, arriving on an empty timeline.\<close>

theorem reconcile_appends_witness:
  "mset (messages late_confirmation_after)
     = add_mset (aiMessage 1704067200001 iso1 (sample_reply ''m1'' iso1))
         (mset (messages late_confirmation_before))"
proof -
  have h: "b_success (reply_body (Some ''t1''))
      \<and> b_response (reply_body (Some ''t1'')) = Some (sample_reply ''m1'' iso1)"
    by (simp add: reply_body_def)
  from reconcile_appends [where d = "reply_body (Some ''t1'')" and gt = sample_getTime
      and nowMs = 1704067200001 and nowIso = iso1 and c = hi_closure
      and s = late_confirmation_before] h
  show ?thesis
    unfolding late_confirmation_after_def by blast
qed

text \<open>
  C5 as stated fails: the confirmation \<open>m1\<close> applied twice after the user turn leaves
  two turns with the id \<open>m1\<close>.
\<close>

theorem duplicate_confirmation_counterexample:
  "map msg_id
     (reconcile sample_getTime (aiMessage 1704067200001 iso1 (sample_reply ''m1'' iso1))
        (reconcile sample_getTime (aiMessage 1704067200001 iso1 (sample_reply ''m1'' iso1))
           [userMessage 1704067200000 iso0 ''hi'' None]))
   = [msg_id (userMessage 1704067200000 iso0 ''hi'' None), ''m1'', ''m1'']"
  by (simp add: reconcile_def sort_by_def SortCompare_def compare_turns_def sample_getTime_def
      sample_reply_def aiMessage_def userMessage_def or_else_def iso0_def iso1_def)




section \<open>The unused thread helper\<close>

text \<open>
  \<open>getOrCreateThread\<close>, were it called with a stale id, would replace it by the id of a
  newly created thread.
\<close>

lemma getOrCreateThread_recovers:
  assumes "currentThreadId s = Some stale" and "stale \<noteq> []" and "\<not> ok status"
    and "ok status'" and "t \<noteq> []"
  shows "snd (getOrCreateThread (VerifyResponse status) (CreateResponse status' (Some t)) s) = Inr t"
    and "currentThreadId
           (fst (getOrCreateThread (VerifyResponse status) (CreateResponse status' (Some t)) s))
         = Some t"
  using assms
  by (simp_all add: getOrCreateThread_def create_thread_def fetch_def Let_def)

end
